theory Spec2Isabelle
  imports Main "HOL-Library.Word" "HOL-Library.Sublist"
begin

section \<open>Go values the transport layer handles\<close>

type_synonym byte = "8 word"
type_synonym bytes = "byte list"

text \<open>
  Go errors. \<open>errorString\<close> is a leaf error (what \<open>errors.New\<close> and a \<open>fmt.Errorf\<close>
  without \<open>%w\<close> build); \<open>wrapError msg err\<close> is what \<open>fmt.Errorf\<close> builds for a format
  with one \<open>%w\<close>: the whole formatted message, and the wrapped error that \<open>Unwrap\<close>
  gives back. The absent error (Go's \<open>nil\<close>) is \<open>None\<close> of \<open>error option\<close>.
\<close>

datatype error = errorString string | wrapError string error

fun Error :: "error \<Rightarrow> string" where
  "Error (errorString s) = s"
| "Error (wrapError msg err) = msg"


text \<open>\<open>fmt.Errorf(pfx + "%w", err)\<close> and \<open>fmt.Errorf(pfx + "%v", s)\<close> for a string \<open>s\<close>.\<close>

definition Errorf_w :: "string \<Rightarrow> error \<Rightarrow> error" where
  "Errorf_w pfx err = wrapError (pfx @ Error err) err"

definition Errorf_v :: "string \<Rightarrow> string \<Rightarrow> error" where
  "Errorf_v pfx s = errorString (pfx @ s)"

text \<open>
  \<open>gopacket.SerializeBuffer\<close>: the model keeps the bytes that \<open>Bytes()\<close> returns.
  A new buffer is empty.
\<close>

type_synonym SerializeBuffer = bytes

definition NewSerializeBuffer :: SerializeBuffer where
  "NewSerializeBuffer = []"

definition Bytes :: "SerializeBuffer \<Rightarrow> bytes" where
  "Bytes b = b"

text \<open>
  The packet a caller hands to \<open>Write\<close>. \<open>Serialize\<close> works on the buffer it is given:
  it returns the error (if any) and the buffer as it leaves it. \<open>IP\<close> is the destination
  of a raw send. The packet's own code is not in the files verified here, so both are
  taken as they come.
\<close>

record Packet =
  Serialize :: "SerializeBuffer \<Rightarrow> error option \<times> SerializeBuffer"
  IP :: bytes

text \<open>The values a \<open>map[string]any\<close> of a decoded configuration file holds.\<close>

datatype any =
    any_nil
  | any_bool bool
  | any_int int
  | any_string string
  | any_list "any list"
  | any_map "(string \<times> any) list"

section \<open>Sockets and the record of I/O\<close>

text \<open>
  An operating-system socket is a handle. The \<open>net.Conn\<close> a stream connection holds is
  either the dialed socket itself or the TLS client wrapped around it.
\<close>

datatype sock = Sock nat

datatype net_Conn = plain sock | tls_Client sock

text \<open>
  Every call that reaches the network or the operating system is appended to a trace,
  so that "no network I/O" and "close is invoked once" are statements about the trace.
\<close>

datatype event =
    ListenPacket_call string string
  | Dial_call string string
  | Handshake_call sock
  | WriteTo_call sock bytes bytes
  | Write_call net_Conn bytes
  | Read_call net_Conn nat
  | Close_call sock

type_synonym trace = "event list"

section \<open>Configuration\<close>

record 'pp ConnectionConfig =
  Type :: string
  Args :: "string \<rightharpoonup> any"
  Proxy :: "'pp option"

record rawConnConfig =
  Name :: string
  raw_Address :: string

record ('pp, 'tls) netConnConfig =
  Protocol :: string
  net_Address :: string
  Timeout :: "64 word"
  cfg_Proxy :: 'pp
  TLSClientConfig :: "'tls option"

text \<open>
  What the transport layer calls and does not define: the decoder of the argument map
  (one result per target shape), the operating system's \<open>net.ListenPacket\<close>, the dial
  capability that \<open>utils.GetProxyFunc\<close> resolves from the context, the proxy parameters
  and the protocol, the TLS handshake and the socket's reads and writes. Each outcome
  may depend on everything that happened before (the trace). \<open>ProxyParams_zero\<close> is the
  value of the composite literal \<open>utils.ProxyParams{}\<close>.
\<close>

record ('ctx, 'pp, 'tls) env =
  Decode_rawConnConfig :: "(string \<rightharpoonup> any) \<Rightarrow> error + rawConnConfig"
  Decode_netConnConfig :: "(string \<rightharpoonup> any) \<Rightarrow> error + ('pp, 'tls) netConnConfig"
  ListenPacket :: "trace \<Rightarrow> string \<Rightarrow> string \<Rightarrow> error + sock"
  GetProxyFunc :: "'ctx \<Rightarrow> 'pp \<Rightarrow> string \<Rightarrow> trace \<Rightarrow> string \<Rightarrow> string \<Rightarrow> error + sock"
  Handshake :: "trace \<Rightarrow> sock \<Rightarrow> 'tls \<Rightarrow> error option"
  WriteTo :: "trace \<Rightarrow> sock \<Rightarrow> bytes \<Rightarrow> bytes \<Rightarrow> int \<times> error option"
  Conn_Write :: "trace \<Rightarrow> net_Conn \<Rightarrow> bytes \<Rightarrow> int \<times> error option"
  Conn_Read :: "trace \<Rightarrow> net_Conn \<Rightarrow> bytes \<Rightarrow> (int \<times> error option) \<times> bytes"
  ProxyParams_zero :: 'pp

text \<open>
  Modelled from the spec: \<open>utils.NonNilOrDefault\<close> is not in the files verified here.
  The spec has the stream transport take "optional proxy parameters"; the helper gives
  the pointed-to value of a non-nil pointer and the default for a nil one.
\<close>

definition NonNilOrDefault :: "'a option \<Rightarrow> 'a \<Rightarrow> 'a" where
  "NonNilOrDefault v dflt = (case v of Some x \<Rightarrow> x | None \<Rightarrow> dflt)"

section \<open>The raw transport\<close>

record rawConn =
  PacketConn :: sock
  raw_buf :: SerializeBuffer
  raw_target :: string

text \<open>
  \<open>openRawConn\<close> returns a pointer and an error, both always present in Go: the pointer
  is \<open>rawConn option\<close> (\<open>None\<close> is the nil pointer).
\<close>

definition openRawConn ::
  "('ctx, 'pp, 'tls) env \<Rightarrow> rawConnConfig \<Rightarrow> trace \<Rightarrow> (rawConn option \<times> error option) \<times> trace" where
  "openRawConn E c tr =
     (case ListenPacket E tr (Name c) (raw_Address c) of
        Inl err \<Rightarrow> ((None, Some err), tr @ [ListenPacket_call (Name c) (raw_Address c)])
      | Inr packetConn \<Rightarrow>
          ((Some \<lparr>PacketConn = packetConn,
                  raw_buf = NewSerializeBuffer,
                  raw_target = Name c @ ''://'' @ raw_Address c\<rparr>, None),
           tr @ [ListenPacket_call (Name c) (raw_Address c)]))"

definition rawConn_Write ::
  "('ctx, 'pp, 'tls) env \<Rightarrow> rawConn \<Rightarrow> Packet \<Rightarrow> trace \<Rightarrow> (int \<times> error option) \<times> rawConn \<times> trace" where
  "rawConn_Write E conn packet tr =
     (case Serialize packet (raw_buf conn) of
        (Some err, b) \<Rightarrow>
          ((0, Some (Errorf_w ''error serializing packet: '' err)), conn\<lparr>raw_buf := b\<rparr>, tr)
      | (None, b) \<Rightarrow>
          (WriteTo E tr (PacketConn conn) (Bytes b) (IP packet),
           conn\<lparr>raw_buf := b\<rparr>,
           tr @ [WriteTo_call (PacketConn conn) (Bytes b) (IP packet)]))"

definition rawConn_Target :: "rawConn \<Rightarrow> string" where
  "rawConn_Target conn = raw_target conn"

definition rawConn_Read :: "rawConn \<Rightarrow> bytes \<Rightarrow> int \<times> error option" where
  "rawConn_Read conn b = (0, None)"

section \<open>The stream transport\<close>

record netConn =
  Conn :: net_Conn
  net_buf :: SerializeBuffer
  net_target :: string

text \<open>
  \<open>tls.Conn.Close\<close> (Go's standard library) on a client whose handshake has not
  completed sends no alert and closes the connection it wraps.
\<close>

definition tls_Conn_Close :: "sock \<Rightarrow> trace \<Rightarrow> trace" where
  "tls_Conn_Close conn tr = tr @ [Close_call conn]"

definition openNetConn ::
  "('ctx, 'pp, 'tls) env \<Rightarrow> 'ctx \<Rightarrow> ('pp, 'tls) netConnConfig \<Rightarrow> 'pp option \<Rightarrow> trace
     \<Rightarrow> (netConn option \<times> error option) \<times> trace" where
  "openNetConn E ctx c proxyParams tr =
     (case GetProxyFunc E ctx (NonNilOrDefault proxyParams (ProxyParams_zero E)) (Protocol c)
             tr (Protocol c) (net_Address c) of
        Inl err \<Rightarrow> ((None, Some err), tr @ [Dial_call (Protocol c) (net_Address c)])
      | Inr conn \<Rightarrow>
          (case TLSClientConfig c of
             None \<Rightarrow>
               ((Some \<lparr>Conn = plain conn,
                       net_buf = NewSerializeBuffer,
                       net_target = Protocol c @ ''://'' @ net_Address c\<rparr>, None),
                tr @ [Dial_call (Protocol c) (net_Address c)])
           | Some tlscfg \<Rightarrow>
               (case Handshake E (tr @ [Dial_call (Protocol c) (net_Address c)]) conn tlscfg of
                  Some err \<Rightarrow>
                    ((None, Some err),
                     tls_Conn_Close conn
                       (tr @ [Dial_call (Protocol c) (net_Address c), Handshake_call conn]))
                | None \<Rightarrow>
                    ((Some \<lparr>Conn = tls_Client conn,
                            net_buf = NewSerializeBuffer,
                            net_target = Protocol c @ ''://'' @ net_Address c\<rparr>, None),
                     tr @ [Dial_call (Protocol c) (net_Address c), Handshake_call conn]))))"

definition netConn_Write ::
  "('ctx, 'pp, 'tls) env \<Rightarrow> netConn \<Rightarrow> Packet \<Rightarrow> trace \<Rightarrow> (int \<times> error option) \<times> netConn \<times> trace" where
  "netConn_Write E conn packet tr =
     (case Serialize packet (net_buf conn) of
        (Some err, b) \<Rightarrow>
          ((0, Some (Errorf_w ''error serializing packet: '' err)), conn\<lparr>net_buf := b\<rparr>, tr)
      | (None, b) \<Rightarrow>
          (Conn_Write E tr (Conn conn) (Bytes b),
           conn\<lparr>net_buf := b\<rparr>,
           tr @ [Write_call (Conn conn) (Bytes b)]))"

definition netConn_Target :: "netConn \<Rightarrow> string" where
  "netConn_Target conn = net_target conn"

text \<open>\<open>Read\<close> fills the caller's buffer: the result is the count, the error and the buffer.\<close>

definition netConn_Read ::
  "('ctx, 'pp, 'tls) env \<Rightarrow> netConn \<Rightarrow> bytes \<Rightarrow> trace \<Rightarrow> ((int \<times> error option) \<times> bytes) \<times> trace" where
  "netConn_Read E conn b tr =
     (Conn_Read E tr (Conn conn) b, tr @ [Read_call (Conn conn) (length b)])"

section \<open>The factory\<close>

text \<open>
  A value of the interface type \<open>Connection\<close> is nil only when it holds no dynamic type.
  \<open>OpenConnection\<close> returns the results of \<open>openRawConn\<close> and \<open>openNetConn\<close> as they
  are; Go converts the returned pointer to the interface type, and the converted value
  holds the pointer's type whatever the pointer (a nil pointer included).
\<close>

datatype Connection =
    Connection_nil
  | rawConn_ptr "rawConn option"
  | netConn_ptr "netConn option"

definition OpenConnection ::
  "('ctx, 'pp, 'tls) env \<Rightarrow> 'ctx \<Rightarrow> 'pp ConnectionConfig \<Rightarrow> trace
     \<Rightarrow> (Connection \<times> error option) \<times> trace" where
  "OpenConnection E ctx c tr =
     (if Type c = ''raw'' then
        (case Decode_rawConnConfig E (Args c) of
           Inl err \<Rightarrow>
             ((Connection_nil, Some (Errorf_w ''error decoding connection config: '' err)), tr)
         | Inr cfg \<Rightarrow>
             (case openRawConn E cfg tr of
                ((p, err), tr') \<Rightarrow> ((rawConn_ptr p, err), tr')))
      else if Type c = ''net'' then
        (case Decode_netConnConfig E (Args c) of
           Inl err \<Rightarrow>
             ((Connection_nil, Some (Errorf_w ''error decoding connection config: '' err)), tr)
         | Inr cfg \<Rightarrow>
             (case openNetConn E ctx cfg (Proxy c) tr of
                ((p, err), tr') \<Rightarrow> ((netConn_ptr p, err), tr')))
      else
        ((Connection_nil, Some (Errorf_v ''unknown connection type: '' (Type c))), tr))"

section \<open>Sequences of calls on one connection\<close>

datatype call = Write_op Packet | Read_op bytes

fun rawConn_calls ::
  "('ctx, 'pp, 'tls) env \<Rightarrow> rawConn \<Rightarrow> call list \<Rightarrow> trace \<Rightarrow> rawConn \<times> trace" where
  "rawConn_calls E conn [] tr = (conn, tr)"
| "rawConn_calls E conn (Write_op p # ops) tr =
     (case rawConn_Write E conn p tr of (r, conn', tr') \<Rightarrow> rawConn_calls E conn' ops tr')"
| "rawConn_calls E conn (Read_op b # ops) tr =
     (case rawConn_Read conn b of r \<Rightarrow> rawConn_calls E conn ops tr)"

fun netConn_calls ::
  "('ctx, 'pp, 'tls) env \<Rightarrow> netConn \<Rightarrow> call list \<Rightarrow> trace \<Rightarrow> netConn \<times> trace" where
  "netConn_calls E conn [] tr = (conn, tr)"
| "netConn_calls E conn (Write_op p # ops) tr =
     (case netConn_Write E conn p tr of (r, conn', tr') \<Rightarrow> netConn_calls E conn' ops tr')"
| "netConn_calls E conn (Read_op b # ops) tr =
     (case netConn_Read E conn b tr of (r, tr') \<Rightarrow> netConn_calls E conn ops tr')"

section \<open>What the spec asks of the code outside the transport layer\<close>




section \<open>Sample packets, configurations and environments\<close>

definition sample_packet :: "bytes \<Rightarrow> bytes \<Rightarrow> Packet" where
  "sample_packet payload ip = \<lparr>Serialize = (\<lambda>b. (None, payload)), IP = ip\<rparr>"

text \<open>A packet whose encoding fails and leaves a byte behind in the buffer.\<close>

definition failing_packet :: "bytes \<Rightarrow> Packet" where
  "failing_packet ip =
     \<lparr>Serialize = (\<lambda>b. (Some (errorString ''invalid layer''), [0xFF])), IP = ip\<rparr>"

definition PING :: bytes where
  "PING = [0x50, 0x49, 0x4E, 0x47]"


definition localhost :: bytes where
  "localhost = [127, 0, 0, 1]"

definition sample_decode_raw :: "(string \<rightharpoonup> any) \<Rightarrow> error + rawConnConfig" where
  "sample_decode_raw args =
     (case args ''Name'' of
        Some (any_string n) \<Rightarrow>
          (case args ''Address'' of
             Some (any_string a) \<Rightarrow> Inr \<lparr>Name = n, raw_Address = a\<rparr>
           | _ \<Rightarrow> Inl (errorString ''Address: expected type string''))
      | _ \<Rightarrow> Inl (errorString ''Name: expected type string''))"

definition sample_decode_net :: "(string \<rightharpoonup> any) \<Rightarrow> error + (string, unit) netConnConfig" where
  "sample_decode_net args =
     (case args ''Protocol'' of
        Some (any_string p) \<Rightarrow>
          (case args ''Address'' of
             Some (any_string a) \<Rightarrow>
               Inr \<lparr>Protocol = p, net_Address = a, Timeout = 0, cfg_Proxy = [],
                    TLSClientConfig = (case args ''TLSClientConfig'' of
                                         Some (any_map m) \<Rightarrow> Some () | _ \<Rightarrow> None)\<rparr>
           | _ \<Rightarrow> Inl (errorString ''Address: expected type string''))
      | _ \<Rightarrow> Inl (errorString ''Protocol: expected type string''))"

text \<open>
  An environment in which everything succeeds: each new socket is numbered by the
  length of the trace, a write accepts all its bytes, a read finds nothing. The dial
  capability is direct for the empty proxy parameters and fails for any other.
\<close>

definition sample_env :: "(unit, string, unit) env" where
  "sample_env =
     \<lparr>Decode_rawConnConfig = sample_decode_raw,
      Decode_netConnConfig = sample_decode_net,
      ListenPacket = (\<lambda>tr name address. Inr (Sock (length tr))),
      GetProxyFunc = (\<lambda>ctx pp protocol tr network address.
         if pp = [] then Inr (Sock (length tr)) else Inl (errorString ''proxy unreachable'')),
      Handshake = (\<lambda>tr conn cfg. None),
      WriteTo = (\<lambda>tr conn b dst. (int (length b), None)),
      Conn_Write = (\<lambda>tr conn b. (int (length b), None)),
      Conn_Read = (\<lambda>tr conn b. ((0, None), b)),
      ProxyParams_zero = []\<rparr>"

text \<open>The peer (or a proxy on the way) closes the connection early: the error is \<open>io.EOF\<close>.\<close>

definition EOF :: error where
  "EOF = errorString ''EOF''"

definition handshake_fails_env :: "(unit, string, unit) env" where
  "handshake_fails_env = sample_env\<lparr>Handshake := (\<lambda>tr conn cfg. Some EOF)\<rparr>"

definition dial_fails_env :: "(unit, string, unit) env" where
  "dial_fails_env = sample_env\<lparr>GetProxyFunc := (\<lambda>ctx pp protocol tr network address. Inl EOF)\<rparr>"

text \<open>A process that may not open raw sockets.\<close>

definition EPERM :: error where
  "EPERM = errorString ''listen ip4:tcp 0.0.0.0: socket: operation not permitted''"

definition listen_fails_env :: "(unit, string, unit) env" where
  "listen_fails_env = sample_env\<lparr>ListenPacket := (\<lambda>tr name address. Inl EPERM)\<rparr>"

definition raw_config :: "string ConnectionConfig" where
  "raw_config =
     \<lparr>Type = ''raw'',
      Args = [''Name'' \<mapsto> any_string ''ip4:tcp'', ''Address'' \<mapsto> any_string ''0.0.0.0''],
      Proxy = None\<rparr>"

definition net_config :: "string ConnectionConfig" where
  "net_config =
     \<lparr>Type = ''net'',
      Args = [''Protocol'' \<mapsto> any_string ''tcp'', ''Address'' \<mapsto> any_string ''example:80''],
      Proxy = None\<rparr>"

definition tcp_config :: "(string, unit) netConnConfig" where
  "tcp_config =
     \<lparr>Protocol = ''tcp'', net_Address = ''example:80'', Timeout = 0, cfg_Proxy = [],
      TLSClientConfig = None\<rparr>"

definition tls_config :: "(string, unit) netConnConfig" where
  "tls_config =
     \<lparr>Protocol = ''tcp'', net_Address = ''example:443'', Timeout = 0, cfg_Proxy = [],
      TLSClientConfig = Some ()\<rparr>"

definition ip6_config :: rawConnConfig where
  "ip6_config = \<lparr>Name = ''ip6:ip'', raw_Address = ''::''\<rparr>"

definition sample_rawConn :: rawConn where
  "sample_rawConn = \<lparr>PacketConn = Sock 0, raw_buf = [1, 2, 3], raw_target = ''ip6:ip://::''\<rparr>"

definition sample_netConn :: netConn where
  "sample_netConn =
     \<lparr>Conn = plain (Sock 0), net_buf = NewSerializeBuffer, net_target = ''tcp://example:80''\<rparr>"

section \<open>One write, and what a sequence of calls keeps\<close>





lemma rawConn_Write_keeps:
  "rawConn_Write E conn p tr = (r, conn', tr') \<Longrightarrow>
   PacketConn conn' = PacketConn conn \<and> raw_target conn' = raw_target conn"
  by (auto simp: rawConn_Write_def split: prod.splits option.splits)

lemma rawConn_calls_keeps:
  "rawConn_calls E conn ops tr = (conn', tr') \<Longrightarrow>
   PacketConn conn' = PacketConn conn \<and> raw_target conn' = raw_target conn"
proof (induction E conn ops tr rule: rawConn_calls.induct)
  case (1 E conn tr)
  then show ?case by simp
next
  case (2 E conn p ops tr)
  obtain r c1 t1 where w: "rawConn_Write E conn p tr = (r, c1, t1)"
    by (cases "rawConn_Write E conn p tr") auto
  from 2 w have "PacketConn conn' = PacketConn c1 \<and> raw_target conn' = raw_target c1"
    by simp
  with rawConn_Write_keeps [OF w] show ?case by simp
next
  case (3 E conn b ops tr)
  then show ?case by simp
qed

lemma netConn_Write_keeps:
  "netConn_Write E conn p tr = (r, conn', tr') \<Longrightarrow>
   Conn conn' = Conn conn \<and> net_target conn' = net_target conn"
  by (auto simp: netConn_Write_def split: prod.splits option.splits)

lemma netConn_calls_keeps:
  "netConn_calls E conn ops tr = (conn', tr') \<Longrightarrow>
   Conn conn' = Conn conn \<and> net_target conn' = net_target conn"
proof (induction E conn ops tr rule: netConn_calls.induct)
  case (1 E conn tr)
  then show ?case by simp
next
  case (2 E conn p ops tr)
  obtain r c1 t1 where w: "netConn_Write E conn p tr = (r, c1, t1)"
    by (cases "netConn_Write E conn p tr") auto
  from 2 w have "Conn conn' = Conn c1 \<and> net_target conn' = net_target c1"
    by simp
  with netConn_Write_keeps [OF w] show ?case by simp
next
  case (3 E conn b ops tr)
  then show ?case by (simp split: prod.splits)
qed

section \<open>What opening a connection gives\<close>

lemma openRawConn_target:
  "openRawConn E c tr = ((Some conn, e), tr1) \<Longrightarrow>
   raw_target conn = Name c @ ''://'' @ raw_Address c"
  by (auto simp: openRawConn_def split: sum.splits)

lemma openNetConn_target:
  "openNetConn E ctx c pp tr = ((Some conn, e), tr1) \<Longrightarrow>
   net_target conn = Protocol c @ ''://'' @ net_Address c"
  by (auto simp: openNetConn_def split: sum.splits option.splits)

lemma openNetConn_plain:
  "TLSClientConfig c = None \<Longrightarrow> openNetConn E ctx c pp tr = ((Some conn, e), tr1) \<Longrightarrow>
   GetProxyFunc E ctx (NonNilOrDefault pp (ProxyParams_zero E)) (Protocol c) tr
      (Protocol c) (net_Address c) = Inr s \<Longrightarrow>
   Conn conn = plain s \<and> e = None \<and> tr1 = tr @ [Dial_call (Protocol c) (net_Address c)]"
  by (auto simp: openNetConn_def)

text \<open>
  Whenever \<open>OpenConnection\<close> returns an error, the value it returns beside it holds no
  connection: it is the nil interface value or holds a nil pointer.
\<close>

lemma OpenConnection_error_no_pointer:
  "OpenConnection E ctx c tr = ((conn, Some err), tr') \<Longrightarrow>
   conn = Connection_nil \<or> conn = rawConn_ptr None \<or> conn = netConn_ptr None"
  by (auto simp: OpenConnection_def openRawConn_def openNetConn_def
           split: if_splits sum.splits option.splits)

text \<open>
  The six ways out of \<open>OpenConnection\<close> with an error, and the connection value each
  returns: the nil interface value where \<open>OpenConnection\<close> itself writes \<open>nil\<close>, an
  interface value holding a nil pointer where it passes on what \<open>openRawConn\<close> or
  \<open>openNetConn\<close> returned.
\<close>

lemma OpenConnection_failure_paths:
  "(Type c = ''raw'' \<and> Decode_rawConnConfig E (Args c) = Inl err \<longrightarrow>
      fst (fst (OpenConnection E ctx c tr)) = Connection_nil) \<and>
   (Type c = ''raw'' \<and> Decode_rawConnConfig E (Args c) = Inr rcfg \<and>
    ListenPacket E tr (Name rcfg) (raw_Address rcfg) = Inl err \<longrightarrow>
      fst (OpenConnection E ctx c tr) = (rawConn_ptr None, Some err)) \<and>
   (Type c = ''net'' \<and> Decode_netConnConfig E (Args c) = Inl err \<longrightarrow>
      fst (fst (OpenConnection E ctx c tr)) = Connection_nil) \<and>
   (Type c = ''net'' \<and> Decode_netConnConfig E (Args c) = Inr ncfg \<and>
    GetProxyFunc E ctx (NonNilOrDefault (Proxy c) (ProxyParams_zero E)) (Protocol ncfg) tr
      (Protocol ncfg) (net_Address ncfg) = Inl err \<longrightarrow>
      fst (OpenConnection E ctx c tr) = (netConn_ptr None, Some err)) \<and>
   (Type c = ''net'' \<and> Decode_netConnConfig E (Args c) = Inr ncfg \<and>
    GetProxyFunc E ctx (NonNilOrDefault (Proxy c) (ProxyParams_zero E)) (Protocol ncfg) tr
      (Protocol ncfg) (net_Address ncfg) = Inr s \<and>
    TLSClientConfig ncfg = Some tlscfg \<and>
    Handshake E (tr @ [Dial_call (Protocol ncfg) (net_Address ncfg)]) s tlscfg = Some err \<longrightarrow>
      fst (OpenConnection E ctx c tr) = (netConn_ptr None, Some err)) \<and>
   (Type c \<noteq> ''raw'' \<and> Type c \<noteq> ''net'' \<longrightarrow>
      fst (fst (OpenConnection E ctx c tr)) = Connection_nil)"
  by (simp add: OpenConnection_def openRawConn_def openNetConn_def)


section \<open>The buffer is reused, the bytes are not\<close>



section \<open>Reading from a raw connection\<close>

text \<open>
  C2. \<open>Read\<close> on a raw connection returns \<open>(0, nil)\<close>: zero bytes and no error, whatever
  calls came before on the connection and whatever buffer it is given.
\<close>

theorem rawConn_Read_zero:
  "rawConn_Read (fst (rawConn_calls E conn ops tr)) b = (0, None)"
  by (simp add: rawConn_Read_def)

section \<open>An unrecognized transport\<close>

text \<open>
  C3. For every configuration whose \<open>Type\<close> is neither \<open>"raw"\<close> nor \<open>"net"\<close>,
  \<open>OpenConnection\<close> fails with an error whose message names the \<open>Type\<close> it was given:
  the connection it returns is nil, the error is present, and nothing was opened.
\<close>

theorem OpenConnection_unknown_Type:
  assumes "Type c \<noteq> ''raw''" and "Type c \<noteq> ''net''"
  shows "OpenConnection E ctx c tr =
           ((Connection_nil, Some (errorString (''unknown connection type: '' @ Type c))), tr)"
  using assms by (simp add: OpenConnection_def Errorf_v_def)

theorem OpenConnection_unknown_Type_witness:
  "OpenConnection sample_env () (raw_config\<lparr>Type := ''udp''\<rparr>) [] =
     ((Connection_nil, Some (errorString ''unknown connection type: udp'')), [])"
  using OpenConnection_unknown_Type [of "raw_config\<lparr>Type := ''udp''\<rparr>" sample_env "()" "[]"]
  by simp

section \<open>A packet that does not serialize\<close>

text \<open>
  C4. On both transports, when \<open>packet.Serialize\<close> returns an error, \<open>Write\<close> returns
  the count 0 and that error wrapped behind \<open>"error serializing packet: "\<close>, performs no
  network I/O (the trace is as it was), and leaves the connection as it was but for
  the contents of the buffer: the socket and the target stay, so the connection is
  valid for the next \<open>Write\<close>.
\<close>

theorem Write_serialize_error:
  "(Serialize p (raw_buf rc) = (Some err, b) \<longrightarrow>
      rawConn_Write E rc p tr =
        ((0, Some (wrapError (''error serializing packet: '' @ Error err) err)),
         rc\<lparr>raw_buf := b\<rparr>, tr)) \<and>
   (Serialize p (net_buf nc) = (Some err, b) \<longrightarrow>
      netConn_Write E nc p tr =
        ((0, Some (wrapError (''error serializing packet: '' @ Error err) err)),
         nc\<lparr>net_buf := b\<rparr>, tr))"
  by (simp add: rawConn_Write_def netConn_Write_def Errorf_w_def)

theorem Write_serialize_error_witness:
  "rawConn_Write sample_env sample_rawConn (failing_packet localhost) [] =
     ((0, Some (wrapError ''error serializing packet: invalid layer''
                  (errorString ''invalid layer''))),
      sample_rawConn\<lparr>raw_buf := [0xFF]\<rparr>, []) \<and>
   netConn_Write sample_env sample_netConn (failing_packet localhost) [] =
     ((0, Some (wrapError ''error serializing packet: invalid layer''
                  (errorString ''invalid layer''))),
      sample_netConn\<lparr>net_buf := [0xFF]\<rparr>, [])"
  using Write_serialize_error [where p = "failing_packet localhost" and rc = sample_rawConn
      and nc = sample_netConn and err = "errorString ''invalid layer''" and b = "[0xFF]"
      and E = sample_env and tr = "[]"]
  by (simp add: failing_packet_def)

section \<open>A TLS handshake that fails\<close>

text \<open>
  C5, as amended. When a TLS client configuration is supplied, the dial succeeds and
  the handshake fails, \<open>openNetConn\<close> closes the dialed socket exactly once (through
  the TLS client wrapped around it) before it returns, returns no connection, and
  returns the error of the handshake unchanged. It adds no mark of its own to the
  error, as it adds none to the error of a failed dial.
\<close>

theorem openNetConn_handshake_failure:
  assumes "TLSClientConfig c = Some tlscfg"
    and "GetProxyFunc E ctx (NonNilOrDefault pp (ProxyParams_zero E)) (Protocol c) tr
           (Protocol c) (net_Address c) = Inr s"
    and "Handshake E (tr @ [Dial_call (Protocol c) (net_Address c)]) s tlscfg = Some err"
  shows "openNetConn E ctx c pp tr =
           ((None, Some err),
            tr @ [Dial_call (Protocol c) (net_Address c), Handshake_call s, Close_call s]) \<and>
         count_list (snd (openNetConn E ctx c pp tr)) (Close_call s) =
           count_list tr (Close_call s) + 1"
  using assms by (simp add: openNetConn_def tls_Conn_Close_def)

theorem openNetConn_handshake_failure_witness:
  "openNetConn handshake_fails_env () tls_config None [] =
     ((None, Some EOF),
      [Dial_call ''tcp'' ''example:443'', Handshake_call (Sock 0), Close_call (Sock 0)]) \<and>
   count_list (snd (openNetConn handshake_fails_env () tls_config None [])) (Close_call (Sock 0)) = 1"
  using openNetConn_handshake_failure [where c = tls_config and tlscfg = "()"
      and E = handshake_fails_env and ctx = "()" and pp = None and tr = "[]" and s = "Sock 0"
      and err = EOF]
  by (simp add: handshake_fails_env_def sample_env_def tls_config_def NonNilOrDefault_def)

text \<open>
  The claim as it was stated fails: a handshake that fails with \<open>io.EOF\<close> and a dial
  that fails with \<open>io.EOF\<close> make \<open>openNetConn\<close> return the same values.
\<close>

theorem handshake_error_same_as_dial_error:
  "fst (openNetConn handshake_fails_env () tls_config None []) =
     fst (openNetConn dial_fails_env () tls_config None []) \<and>
   fst (openNetConn handshake_fails_env () tls_config None []) = (None, Some (errorString ''EOF''))"
  by (simp add: openNetConn_def handshake_fails_env_def dial_fails_env_def sample_env_def
        tls_config_def NonNilOrDefault_def EOF_def tls_Conn_Close_def)

section \<open>A stream write carries the serialized bytes and nothing else\<close>

text \<open>
  C6. On a stream connection opened without TLS, at any later point of its use, a
  \<open>Write\<close> of a packet whose \<open>Serialize\<close> succeeds makes one write to the dialed
  socket, of exactly the bytes \<open>Serialize\<close> left in the buffer: no framing is added.
\<close>

theorem netConn_Write_exact_bytes:
  assumes "TLSClientConfig c = None"
    and "GetProxyFunc E ctx (NonNilOrDefault pp (ProxyParams_zero E)) (Protocol c) tr
           (Protocol c) (net_Address c) = Inr s"
    and "openNetConn E ctx c pp tr = ((Some conn, e), tr1)"
    and "netConn_calls E conn ops tr1 = (conn', tr2)"
    and "Serialize p (net_buf conn') = (None, b)"
  shows "netConn_Write E conn' p tr2 =
           (Conn_Write E tr2 (plain s) (Bytes b), conn'\<lparr>net_buf := b\<rparr>,
            tr2 @ [Write_call (plain s) (Bytes b)])"
proof -
  from openNetConn_plain [OF assms(1) assms(3) assms(2)] have "Conn conn = plain s" by simp
  with netConn_calls_keeps [OF assms(4)] have "Conn conn' = plain s" by simp
  with assms(5) show ?thesis by (simp add: netConn_Write_def)
qed

theorem netConn_Write_exact_bytes_witness:
  "openNetConn sample_env () tcp_config None [] =
     ((Some sample_netConn, None), [Dial_call ''tcp'' ''example:80'']) \<and>
   netConn_calls sample_env sample_netConn [Write_op (failing_packet localhost)]
       [Dial_call ''tcp'' ''example:80''] =
     (sample_netConn\<lparr>net_buf := [0xFF]\<rparr>, [Dial_call ''tcp'' ''example:80'']) \<and>
   netConn_Write sample_env (sample_netConn\<lparr>net_buf := [0xFF]\<rparr>) (sample_packet PING localhost)
       [Dial_call ''tcp'' ''example:80''] =
     ((4, None), sample_netConn\<lparr>net_buf := PING\<rparr>,
      [Dial_call ''tcp'' ''example:80'', Write_call (plain (Sock 0)) PING])"
proof -
  have o: "openNetConn sample_env () tcp_config None [] =
     ((Some sample_netConn, None), [Dial_call ''tcp'' ''example:80''])"
    by (simp add: openNetConn_def sample_env_def tcp_config_def NonNilOrDefault_def
          sample_netConn_def)
  have c: "netConn_calls sample_env sample_netConn [Write_op (failing_packet localhost)]
       [Dial_call ''tcp'' ''example:80''] =
     (sample_netConn\<lparr>net_buf := [0xFF]\<rparr>, [Dial_call ''tcp'' ''example:80''])"
    by (simp add: netConn_Write_def failing_packet_def)
  have t: "TLSClientConfig tcp_config = None"
    by (simp add: tcp_config_def)
  have d: "GetProxyFunc sample_env () (NonNilOrDefault None (ProxyParams_zero sample_env))
      (Protocol tcp_config) [] (Protocol tcp_config) (net_Address tcp_config) = Inr (Sock 0)"
    by (simp add: sample_env_def NonNilOrDefault_def)
  have s: "Serialize (sample_packet PING localhost) (net_buf (sample_netConn\<lparr>net_buf := [0xFF]\<rparr>)) =
      (None, PING)"
    by (simp add: sample_packet_def)
  from netConn_Write_exact_bytes [OF t d o c s] o c
  show ?thesis
    by (simp add: sample_env_def Bytes_def PING_def)
qed


section \<open>The target descriptor\<close>

text \<open>
  C7. A connection that \<open>Open\<close> produces has the target \<open>protocol://address\<close> of its
  configuration (the raw transport's \<open>Name\<close> and \<open>Address\<close>, the stream transport's
  \<open>Protocol\<close> and \<open>Address\<close>), set when the connection is built, and \<open>Target()\<close>
  returns the same after any sequence of \<open>Write\<close> and \<open>Read\<close> calls, whatever the
  packets' destinations.
\<close>

theorem Target_fixed:
  "(openRawConn E rcfg tr = ((Some rc, e), tr1) \<longrightarrow>
      rawConn_Target rc = Name rcfg @ ''://'' @ raw_Address rcfg \<and>
      rawConn_Target (fst (rawConn_calls E rc ops tr1)) = Name rcfg @ ''://'' @ raw_Address rcfg) \<and>
   (openNetConn E ctx ncfg pp tr = ((Some nc, e'), tr2) \<longrightarrow>
      netConn_Target nc = Protocol ncfg @ ''://'' @ net_Address ncfg \<and>
      netConn_Target (fst (netConn_calls E nc ops' tr2)) =
        Protocol ncfg @ ''://'' @ net_Address ncfg)"
proof -
  have raw: "raw_target (fst (rawConn_calls E rc ops tr1)) = raw_target rc"
    using rawConn_calls_keeps [of E rc ops tr1] by (cases "rawConn_calls E rc ops tr1") simp
  have net: "net_target (fst (netConn_calls E nc ops' tr2)) = net_target nc"
    using netConn_calls_keeps [of E nc ops' tr2] by (cases "netConn_calls E nc ops' tr2") simp
  show ?thesis
    using openRawConn_target [of E rcfg tr rc e tr1]
      openNetConn_target [of E ctx ncfg pp tr nc e' tr2]
    by (simp add: rawConn_Target_def netConn_Target_def raw net)
qed

theorem Target_fixed_witness:
  "openRawConn sample_env ip6_config [] =
     ((Some (sample_rawConn\<lparr>raw_buf := []\<rparr>), None), [ListenPacket_call ''ip6:ip'' ''::'']) \<and>
   rawConn_Target (sample_rawConn\<lparr>raw_buf := []\<rparr>) = ''ip6:ip://::'' \<and>
   rawConn_Target (fst (rawConn_calls sample_env (sample_rawConn\<lparr>raw_buf := []\<rparr>)
       [Write_op (sample_packet PING localhost), Read_op [], Write_op (failing_packet [10, 0, 0, 1])]
       [ListenPacket_call ''ip6:ip'' ''::''])) = ''ip6:ip://::'' \<and>
   openNetConn sample_env () tcp_config None [] =
     ((Some sample_netConn, None), [Dial_call ''tcp'' ''example:80'']) \<and>
   netConn_Target sample_netConn = ''tcp://example:80'' \<and>
   netConn_Target (fst (netConn_calls sample_env sample_netConn
       [Write_op (sample_packet PING localhost), Read_op [0, 0, 0, 0]]
       [Dial_call ''tcp'' ''example:80''])) = ''tcp://example:80''"
proof -
  have r: "openRawConn sample_env ip6_config [] =
     ((Some (sample_rawConn\<lparr>raw_buf := []\<rparr>), None), [ListenPacket_call ''ip6:ip'' ''::''])"
    by (simp add: openRawConn_def sample_env_def ip6_config_def sample_rawConn_def
          NewSerializeBuffer_def)
  have n: "openNetConn sample_env () tcp_config None [] =
     ((Some sample_netConn, None), [Dial_call ''tcp'' ''example:80''])"
    by (simp add: openNetConn_def sample_env_def tcp_config_def NonNilOrDefault_def
          sample_netConn_def)
  from Target_fixed [where E = sample_env and rcfg = ip6_config and tr = "[]"
      and rc = "sample_rawConn\<lparr>raw_buf := []\<rparr>" and e = None
      and ?tr1.0 = "[ListenPacket_call ''ip6:ip'' ''::'']"
      and ops = "[Write_op (sample_packet PING localhost), Read_op [],
                  Write_op (failing_packet [10, 0, 0, 1])]"
      and ctx = "()" and ncfg = tcp_config and pp = None and nc = sample_netConn and e' = None
      and ?tr2.0 = "[Dial_call ''tcp'' ''example:80'']"
      and ops' = "[Write_op (sample_packet PING localhost), Read_op [0, 0, 0, 0]]"] r n
  show ?thesis
    by (simp add: ip6_config_def tcp_config_def)
qed

section \<open>Arguments that do not decode\<close>



section \<open>The connection returned beside an error\<close>

text \<open>
  C9. The claim has the returned \<open>Connection\<close> nil whenever the returned error is not.
  When \<open>net.ListenPacket\<close> fails, \<open>OpenConnection\<close> returns the error beside an
  interface value that holds the nil \<open>*rawConn\<close>: a value that is not the nil
  \<open>Connection\<close>.
\<close>

theorem OpenConnection_listen_failure_not_nil:
  "OpenConnection listen_fails_env () raw_config [] =
     ((rawConn_ptr None, Some EPERM), [ListenPacket_call ''ip4:tcp'' ''0.0.0.0'']) \<and>
   rawConn_ptr None \<noteq> Connection_nil"
  by (simp add: OpenConnection_def openRawConn_def listen_fails_env_def sample_env_def
        sample_decode_raw_def raw_config_def)

section \<open>No proxy parameters\<close>

text \<open>
  C10. For a configuration of \<open>Type\<close> \<open>"net"\<close> whose \<open>Proxy\<close> is nil, \<open>OpenConnection\<close>
  does what it does for the same configuration with the empty proxy parameters: the
  dial capability is resolved from the default, and where the arguments decode, no TLS
  is asked for and that dial succeeds, \<open>OpenConnection\<close> succeeds.
\<close>

theorem OpenConnection_nil_Proxy:
  assumes "Type c = ''net''" and "Proxy c = None"
  shows "OpenConnection E ctx c tr =
           OpenConnection E ctx (c\<lparr>Proxy := Some (ProxyParams_zero E)\<rparr>) tr \<and>
         (\<forall>cfg s. Decode_netConnConfig E (Args c) = Inr cfg \<and> TLSClientConfig cfg = None \<and>
            GetProxyFunc E ctx (ProxyParams_zero E) (Protocol cfg) tr
              (Protocol cfg) (net_Address cfg) = Inr s \<longrightarrow>
            OpenConnection E ctx c tr =
              ((netConn_ptr (Some \<lparr>Conn = plain s, net_buf = NewSerializeBuffer,
                                   net_target = Protocol cfg @ ''://'' @ net_Address cfg\<rparr>), None),
               tr @ [Dial_call (Protocol cfg) (net_Address cfg)]))"
  using assms
  by (auto simp: OpenConnection_def openNetConn_def NonNilOrDefault_def split: sum.splits)

theorem OpenConnection_nil_Proxy_witness:
  "Type net_config = ''net'' \<and> Proxy net_config = None \<and>
   OpenConnection sample_env () net_config [] =
     OpenConnection sample_env () (net_config\<lparr>Proxy := Some []\<rparr>) [] \<and>
   OpenConnection sample_env () net_config [] =
     ((netConn_ptr (Some sample_netConn), None), [Dial_call ''tcp'' ''example:80''])"
proof -
  have t: "Type net_config = ''net''" and p: "Proxy net_config = None"
    by (simp_all add: net_config_def)
  have d: "Decode_netConnConfig sample_env (Args net_config) = Inr tcp_config"
    by (simp add: sample_env_def sample_decode_net_def net_config_def tcp_config_def)
  have g: "GetProxyFunc sample_env () (ProxyParams_zero sample_env) (Protocol tcp_config) []
      (Protocol tcp_config) (net_Address tcp_config) = Inr (Sock 0)"
    by (simp add: sample_env_def)
  have z: "ProxyParams_zero sample_env = []" and l: "TLSClientConfig tcp_config = None"
    by (simp_all add: sample_env_def tcp_config_def)
  note th = OpenConnection_nil_Proxy [OF t p, of sample_env "()" "[]"]
  from th have e1: "OpenConnection sample_env () net_config [] =
      OpenConnection sample_env () (net_config\<lparr>Proxy := Some []\<rparr>) []"
    unfolding z by (rule conjunct1)
  from th d g l have e2: "OpenConnection sample_env () net_config [] =
      ((netConn_ptr (Some \<lparr>Conn = plain (Sock 0), net_buf = NewSerializeBuffer,
           net_target = Protocol tcp_config @ ''://'' @ net_Address tcp_config\<rparr>), None),
       [] @ [Dial_call (Protocol tcp_config) (net_Address tcp_config)])"
    by blast
  have e3: "OpenConnection sample_env () net_config [] =
      ((netConn_ptr (Some sample_netConn), None), [Dial_call ''tcp'' ''example:80''])"
    by (simp add: e2 tcp_config_def sample_netConn_def)
  from t p e1 e3 show ?thesis
    by (intro conjI)
qed

end
